theory Spec2Isabelle
  imports Complex_Main "HOL-Library.Sublist" "HOL-Library.Multiset"
begin

section \<open>The SOFEA dashboard mock-up: routing and page projections\<close>

text \<open>
  The repository holds two variants of one Dash application, \<^verbatim>\<open>app.py\<close> (dark theme) and
  \<^verbatim>\<open>sofea_light_theme_storyboard_render_ready_app.py\<close> (light theme). Their functions
  \<^verbatim>\<open>route\<close>, \<^verbatim>\<open>page_bucket\<close>, \<^verbatim>\<open>page_explorer\<close>, \<^verbatim>\<open>page_detail\<close> and \<^verbatim>\<open>bar_click\<close> have the
  same bodies up to colours; the light variant adds two fixed tables to the detail page
  and the rotating highlight of the overview page. Markup, colours and chart layout are
  left out: a page is modelled by the data it is built from.

  Python strings are modelled as \<^typ>\<open>string\<close>; a character beyond ASCII is written as its
  UTF-8 bytes. Float columns are carried as \<^typ>\<open>real\<close>; no arithmetic is done on them.
\<close>

subsection \<open>Errors\<close>

datatype error = NameError | IndexError | ValueError | ZeroDivisionError

subsection \<open>The string methods used by the router\<close>

text \<open>
  \<^verbatim>\<open>s.split(sep)\<close>: the pieces of \<^verbatim>\<open>s\<close> between the occurrences of \<^verbatim>\<open>sep\<close>, found from left
  to right without overlap. An empty separator raises \<^verbatim>\<open>ValueError\<close>.
\<close>

fun split_from :: "string \<Rightarrow> string \<Rightarrow> string list" where
  "split_from sep [] = [[]]"
| "split_from sep (c # cs) =
     (if prefix sep (c # cs) then [] # split_from sep (drop (length sep - 1) cs)
      else (case split_from sep cs of
              [] \<Rightarrow> [[c]]
            | p # ps \<Rightarrow> (c # p) # ps))"

definition py_split :: "string \<Rightarrow> string \<Rightarrow> error + string list" where
  "py_split s sep = (if sep = [] then Inl ValueError else Inr (split_from sep s))"

text \<open>\<^verbatim>\<open>xs[-1]\<close>: the last element; \<^verbatim>\<open>IndexError\<close> on an empty list.\<close>

definition py_last :: "'a list \<Rightarrow> error + 'a" where
  "py_last xs = (case xs of [] \<Rightarrow> Inl IndexError | _ # _ \<Rightarrow> Inr (last xs))"

text \<open>
  \<^verbatim>\<open>s.replace(old, new)\<close>: every occurrence of \<^verbatim>\<open>old\<close>, found from left to right without
  overlap, is replaced by \<^verbatim>\<open>new\<close>. An empty \<^verbatim>\<open>old\<close> matches before every character and at
  the end.
\<close>

fun replace_from :: "string \<Rightarrow> string \<Rightarrow> string \<Rightarrow> string" where
  "replace_from old new [] = []"
| "replace_from old new (c # cs) =
     (if prefix old (c # cs) then new @ replace_from old new (drop (length old - 1) cs)
      else c # replace_from old new cs)"

definition py_replace :: "string \<Rightarrow> string \<Rightarrow> string \<Rightarrow> string" where
  "py_replace s old new =
     (if old = [] then new @ concat (map (\<lambda>c. c # new) s) else replace_from old new s)"

text \<open>\<^verbatim>\<open>p in s\<close> for strings: \<^verbatim>\<open>p\<close> occurs in \<^verbatim>\<open>s\<close> as a contiguous piece.\<close>

fun occurs_in :: "string \<Rightarrow> string \<Rightarrow> bool" where
  "occurs_in p [] = (p = [])"
| "occurs_in p (c # cs) = (prefix p (c # cs) \<or> occurs_in p cs)"

subsection \<open>The data set\<close>

datatype field = Oncology | Neuroscience | Immunology

datatype metric = AIS | EIS | HIS | SIS

text \<open>One row of the data frame \<^verbatim>\<open>DF\<close>, with its thirteen columns.\<close>

record subject =
  Scientist :: string
  Award_Year :: int
  First_Publication_Year :: int
  SOFEA :: real
  AIS_score :: int
  EIS_score :: int
  HIS_score :: int
  SIS_score :: int
  NIH_Grants :: int
  Companies :: int
  Capital_M_USD :: real
  Field :: field
  Years_Since_Award :: int

definition SCIENTISTS :: "string list" where
  "SCIENTISTS =
     [''Dr. Sarah Chen'', ''Dr. Emily Johnson'', ''Dr. James Washington'',
      ''Dr. Diego Rossi'', ''Dr. Elena Park'', ''Dr. Farah Khan'',
      ''Dr. Miguel Alvarez'', ''Dr. Priya Sharma'', ''Dr. Noah Lee'', ''Dr. Lila Patel'']"

text \<open>The non-breaking hyphen of the third highlight is U+2011, three bytes in UTF-8.\<close>

definition IMPACT_HIGHLIGHTS :: "string list" where
  "IMPACT_HIGHLIGHTS =
     [''1,245 awardees supported'',
      ''$1.2B capital raised'',
      ''6 FDA'' @ [CHR 0xE2, CHR 0x80, CHR 0x91] @ ''approved therapies'',
      ''78% above national oRCR'',
      ''42% in leadership roles'']"

text \<open>\<^verbatim>\<open>DF[metric_col]\<close> for the four metric columns, and the column's label.\<close>

fun col :: "metric \<Rightarrow> subject \<Rightarrow> int" where
  "col AIS r = AIS_score r"
| "col EIS r = EIS_score r"
| "col HIS r = HIS_score r"
| "col SIS r = SIS_score r"

fun col_name :: "metric \<Rightarrow> string" where
  "col_name AIS = ''AIS''"
| "col_name EIS = ''EIS''"
| "col_name HIS = ''HIS''"
| "col_name SIS = ''SIS''"

subsection \<open>What is fixed when the module is loaded\<close>

datatype variant = DarkTheme | LightTheme

text \<open>
  The module state that the page builders read: the variant, the data frame, and the two
  library services whose results the source does not determine.

  \<^item> \<open>order_of\<close> stands for pandas' \<^verbatim>\<open>sort_values(col, ascending=False)\<close> with the default
    \<^verbatim>\<open>kind='quicksort'\<close>: from the values of the column it gives the positions of the rows
    in output order. What pandas promises of it is \<open>sorts_descending\<close> below.
  \<^item> \<open>poisson_at lam i\<close> and \<open>uniform_at lo hi i\<close> are the variates that NumPy's process-wide
    generator, seeded once at import, delivers at position \<open>i\<close> of its stream.
\<close>

record app =
  theme :: variant
  DF :: "subject list"
  order_of :: "int list \<Rightarrow> nat list"
  poisson_at :: "real \<Rightarrow> nat \<Rightarrow> int"
  uniform_at :: "real \<Rightarrow> real \<Rightarrow> nat \<Rightarrow> real"

text \<open>
  The state of the process-wide random generator, abstracted to the number of variates
  taken from it so far. Drawing \<open>n\<close> variates returns them and advances the state.
\<close>

type_synonym rng = nat

definition draw :: "(nat \<Rightarrow> 'a) \<Rightarrow> nat \<Rightarrow> rng \<Rightarrow> 'a list \<times> rng" where
  "draw variate n g = (map variate [g ..< g + n], g + n)"

text \<open>
  The contract of a descending sort: the result lists every row position once, and the
  column values do not increase along it. Nothing is said about rows with equal values
  (pandas documents only \<^verbatim>\<open>mergesort\<close> and \<^verbatim>\<open>stable\<close> as stable).
\<close>

definition sorts_descending :: "(int list \<Rightarrow> nat list) \<Rightarrow> bool" where
  "sorts_descending f \<longleftrightarrow>
     (\<forall>ks. mset (f ks) = mset [0 ..< length ks] \<and> sorted (rev (map (\<lambda>i. ks ! i) (f ks))))"

text \<open>Two sorting routines that meet the contract; they differ on equal values only.\<close>

definition order_stable :: "int list \<Rightarrow> nat list" where
  "order_stable ks = sort_key (\<lambda>i. - (ks ! i)) [0 ..< length ks]"

definition order_ties_reversed :: "int list \<Rightarrow> nat list" where
  "order_ties_reversed ks = rev (sort_key (\<lambda>i. ks ! i) [0 ..< length ks])"

subsection \<open>Pages\<close>

record bucket_row =
  row_scientist :: string
  row_field :: field
  row_award_year :: int
  row_metric :: int

record hi_state =
  headline :: "string option"
  hi_index :: int
  n_intervals :: nat

record detail_view =
  dv_scientist :: string
  dv_field :: field
  dv_award_year :: int
  dv_sofea :: real
  dv_breakdown :: "(string \<times> int) list"
  dv_timeline :: "(int \<times> int \<times> int) list"
  dv_publications :: "(int \<times> string \<times> real) list"
  dv_grants :: "(int \<times> string \<times> int) list"
  dv_ventures :: "(string \<times> string \<times> int) list"

datatype page =
    OverviewPage "hi_state option"
  | BucketPage string "(string \<times> int) list" "bucket_row list"
  | ExplorerPage "subject list"
  | NotFoundPage
  | DetailPage detail_view

text \<open>
  \<^verbatim>\<open>page_overview\<close>. Its figures are constants of the presentation. The light variant places
  the interval timer (\<^verbatim>\<open>n_intervals=0\<close>), the store \<^verbatim>\<open>hi-index\<close> (\<^verbatim>\<open>data=0\<close>) and the
  element \<^verbatim>\<open>impact-headline\<close>, which has no content until the first callback.
\<close>

definition page_overview :: "app \<Rightarrow> page" where
  "page_overview a =
     OverviewPage (case theme a of
                     DarkTheme \<Rightarrow> None
                   | LightTheme \<Rightarrow> Some \<lparr>headline = None, hi_index = 0, n_intervals = 0\<rparr>)"

text \<open>\<^verbatim>\<open>DF.sort_values(metric_col, ascending=False)\<close>, the frame behind the bar chart.\<close>

definition topByMetric :: "app \<Rightarrow> metric \<Rightarrow> subject list" where
  "topByMetric a m = map (\<lambda>i. DF a ! i) (order_of a (map (col m) (DF a)))"

text \<open>\<^verbatim>\<open>DF[["Scientist","Field","Award_Year",metric_col]].to_dict("records")\<close>, the table.\<close>

definition bucketTable :: "app \<Rightarrow> metric \<Rightarrow> bucket_row list" where
  "bucketTable a m =
     map (\<lambda>r. \<lparr>row_scientist = Scientist r, row_field = Field r,
               row_award_year = Award_Year r, row_metric = col m r\<rparr>) (DF a)"

definition page_bucket :: "app \<Rightarrow> string \<Rightarrow> metric \<Rightarrow> page" where
  "page_bucket a title m =
     BucketPage title (map (\<lambda>r. (Scientist r, col m r)) (topByMetric a m)) (bucketTable a m)"

definition page_explorer :: "app \<Rightarrow> page" where
  "page_explorer a = ExplorerPage (DF a)"

text \<open>\<^verbatim>\<open>cumsum\<close>: the running sums of a list.\<close>

fun cumsum_from :: "int \<Rightarrow> int list \<Rightarrow> int list" where
  "cumsum_from acc [] = []"
| "cumsum_from acc (x # xs) = (acc + x) # cumsum_from (acc + x) xs"

definition cumsum :: "int list \<Rightarrow> int list" where
  "cumsum xs = cumsum_from 0 xs"

text \<open>
  \<^verbatim>\<open>page_detail\<close>. The rows whose name equals the argument are selected; with none, the page
  is the "Scientist not found" message and nothing is drawn from the generator. Otherwise
  the first such row feeds the page: the breakdown, the timeline over
  \<^verbatim>\<open>range(First_Publication_Year, Award_Year + 4)\<close> with two Poisson draws of that length,
  and the publication table with five uniform draws (their rounding to two decimals is
  not modelled). \<^verbatim>\<open>np.clip(..., 0, None)\<close> is written as \<open>max 0\<close>.
\<close>

definition page_detail :: "app \<Rightarrow> string \<Rightarrow> rng \<Rightarrow> page \<times> rng" where
  "page_detail a scientist g =
     (case filter (\<lambda>r. Scientist r = scientist) (DF a) of
        [] \<Rightarrow> (NotFoundPage, g)
      | r # _ \<Rightarrow>
          (let tyears = [First_Publication_Year r .. Award_Year r + 3];
               (pubs, g1) = draw (poisson_at a (12 / 10)) (length tyears) g;
               (grants, g2) = draw (poisson_at a (6 / 10)) (length tyears) g1;
               (orcr, g3) = draw (uniform_at a (8 / 10) (41 / 10)) 5 g2
           in (DetailPage
                 \<lparr>dv_scientist = scientist,
                  dv_field = Field r,
                  dv_award_year = Award_Year r,
                  dv_sofea = SOFEA r,
                  dv_breakdown =
                    [(''AIS'', AIS_score r), (''EIS'', EIS_score r),
                     (''HIS'', HIS_score r), (''SIS'', SIS_score r)],
                  dv_timeline = zip tyears (zip (cumsum pubs) (map (max 0) (cumsum grants))),
                  dv_publications =
                    zip (map (\<lambda>i. First_Publication_Year r + i) [0 .. 4])
                      (zip [''Nature'', ''Cancer Cell'', ''Cell Reports'', ''PNAS'',
                            ''Science Advances''] orcr),
                  dv_grants =
                    (case theme a of
                       DarkTheme \<Rightarrow> []
                     | LightTheme \<Rightarrow>
                         zip (map (\<lambda>i. Award_Year r + i) [0 .. 2])
                           (zip [''NIH R01'', ''NCI'', ''SBIR''] [3500000, 1200000, 500000])),
                  dv_ventures =
                    (case theme a of
                       DarkTheme \<Rightarrow> []
                     | LightTheme \<Rightarrow>
                         [(''OncoNovaX'', ''Series B'', 88), (''ImmuneBridge'', ''Series A'', 24)])\<rparr>,
               g3)))"

subsection \<open>The router\<close>

text \<open>Which page builder \<^verbatim>\<open>route\<close> calls, and with which arguments.\<close>

datatype selection = Overview | Bucket string metric | Explorer | Detail string

text \<open>
  The chain of tests of \<^verbatim>\<open>route\<close>, in the source's order. The path is \<^verbatim>\<open>None\<close> before the
  browser has reported a location.
\<close>

definition resolve :: "string option \<Rightarrow> error + selection" where
  "resolve path =
     (case path of
        None \<Rightarrow> Inr Overview
      | Some p \<Rightarrow>
          if p = ''/'' then Inr Overview
          else if prefix ''/detail/'' p then
            (case py_split p ''/detail/'' of
               Inl e \<Rightarrow> Inl e
             | Inr parts \<Rightarrow>
                 (case py_last parts of
                    Inl e \<Rightarrow> Inl e
                  | Inr seg \<Rightarrow> Inr (Detail (py_replace seg ''%20'' '' ''))))
          else if p = ''/ais'' then Inr (Bucket ''Academic Impact (AIS)'' AIS)
          else if p = ''/eis'' then Inr (Bucket ''Economic Impact (EIS)'' EIS)
          else if p = ''/his'' then Inr (Bucket ''Health Impact (HIS)'' HIS)
          else if p = ''/sis'' then Inr (Bucket ''Social Impact (SIS)'' SIS)
          else if p = ''/explorer'' then Inr Explorer
          else Inr Overview)"

fun dispatch :: "app \<Rightarrow> selection \<Rightarrow> rng \<Rightarrow> page \<times> rng" where
  "dispatch a Overview g = (page_overview a, g)"
| "dispatch a (Bucket title m) g = (page_bucket a title m, g)"
| "dispatch a Explorer g = (page_explorer a, g)"
| "dispatch a (Detail name) g = page_detail a name g"

definition route :: "app \<Rightarrow> string option \<Rightarrow> rng \<Rightarrow> error + page \<times> rng" where
  "route a path g =
     (case resolve path of Inl e \<Rightarrow> Inl e | Inr sel \<Rightarrow> Inr (dispatch a sel g))"

subsection \<open>The click on a bar\<close>






subsection \<open>The rotating highlight (light variant)\<close>

text \<open>
  \<^verbatim>\<open>rotate_highlights(n, idx)\<close> over a list of highlights: \<^verbatim>\<open>i = (idx + 1) % len(list)\<close>, and
  the outputs are \<^verbatim>\<open>list[i]\<close> and \<^verbatim>\<open>i\<close>. The remainder by zero raises for an empty list.
\<close>

definition rotate_highlights_in :: "string list \<Rightarrow> nat \<Rightarrow> int \<Rightarrow> error + string \<times> int" where
  "rotate_highlights_in hl n idx =
     (if length hl = 0 then Inl ZeroDivisionError
      else (let i = (idx + 1) mod int (length hl) in Inr (hl ! nat i, i)))"

definition rotate_highlights :: "nat \<Rightarrow> int \<Rightarrow> error + string \<times> int" where
  "rotate_highlights n idx = rotate_highlights_in IMPACT_HIGHLIGHTS n idx"

text \<open>The state that \<^verbatim>\<open>page_overview\<close> of the light variant places on the page.\<close>

definition hi_initial :: hi_state where
  "hi_initial = \<lparr>headline = None, hi_index = 0, n_intervals = 0\<rparr>"

text \<open>
  One run of the callback: it is given the timer's count and the stored index, and its
  two outputs replace the headline and the stored index. The timer's count is not
  touched.
\<close>

definition run_callback :: "string list \<Rightarrow> hi_state \<Rightarrow> error + hi_state" where
  "run_callback hl s =
     (case rotate_highlights_in hl (n_intervals s) (hi_index s) of
        Inl e \<Rightarrow> Inl e
      | Inr (h, i) \<Rightarrow> Inr (s\<lparr>headline := Some h, hi_index := i\<rparr>))"

text \<open>
  The callback does not set \<^verbatim>\<open>prevent_initial_call\<close>, so it runs once when the page is
  loaded, on the state the page places, before the timer has counted.
\<close>

definition page_load :: "string list \<Rightarrow> error + hi_state" where
  "page_load hl = run_callback hl hi_initial"

text \<open>One tick of the timer: \<^verbatim>\<open>n_intervals\<close> goes up by one, which runs the callback.\<close>

definition tick :: "string list \<Rightarrow> hi_state \<Rightarrow> error + hi_state" where
  "tick hl s = run_callback hl (s\<lparr>n_intervals := n_intervals s + 1\<rparr>)"

fun ticks :: "string list \<Rightarrow> nat \<Rightarrow> hi_state \<Rightarrow> error + hi_state" where
  "ticks hl 0 s = Inr s"
| "ticks hl (Suc k) s = (case tick hl s of Inl e \<Rightarrow> Inl e | Inr s' \<Rightarrow> ticks hl k s')"

text \<open>The state after the page has been loaded and the timer has ticked \<open>k\<close> times.\<close>

definition after_ticks :: "string list \<Rightarrow> nat \<Rightarrow> error + hi_state" where
  "after_ticks hl k = (case page_load hl of Inl e \<Rightarrow> Inl e | Inr s \<Rightarrow> ticks hl k s)"

subsection \<open>The syntax of an encoded path\<close>




subsection \<open>A sample data set\<close>

text \<open>
  The frame is generated at import from seeded random draws, which are not reproduced
  here. The sample below has the ten names of \<open>SCIENTISTS\<close> and, in every column, values
  from the ranges the generator draws from.
\<close>

definition mk_subject ::
  "string \<Rightarrow> int \<Rightarrow> int \<Rightarrow> real \<Rightarrow> int \<Rightarrow> int \<Rightarrow> int \<Rightarrow> int \<Rightarrow> int \<Rightarrow> int \<Rightarrow> real \<Rightarrow> field \<Rightarrow> subject" where
  "mk_subject nm ay fp so a e h s gr co cap fl =
     \<lparr>Scientist = nm, Award_Year = ay, First_Publication_Year = fp, SOFEA = so,
      AIS_score = a, EIS_score = e, HIS_score = h, SIS_score = s,
      NIH_Grants = gr, Companies = co, Capital_M_USD = cap, Field = fl,
      Years_Since_Award = 2026 - ay\<rparr>"

definition DF_sample :: "subject list" where
  "DF_sample =
     [mk_subject ''Dr. Sarah Chen'' 2019 2016 (84 / 10) 35 18 21 9 2 0 0 Oncology,
      mk_subject ''Dr. Emily Johnson'' 2020 2014 (76 / 10) 35 22 19 10 1 1 (87 / 10) Immunology,
      mk_subject ''Dr. James Washington'' 2018 2015 (91 / 10) 41 12 23 7 3 0 0 Neuroscience,
      mk_subject ''Dr. Diego Rossi'' 2021 2019 (72 / 10) 28 17 18 11 1 0 0 Oncology,
      mk_subject ''Dr. Elena Park'' 2022 2018 (80 / 10) 30 25 20 8 2 2 (242 / 10) Immunology,
      mk_subject ''Dr. Farah Khan'' 2023 2020 (69 / 10) 24 15 17 12 1 0 0 Neuroscience,
      mk_subject ''Dr. Miguel Alvarez'' 2018 2013 (83 / 10) 38 9 22 6 2 0 0 Oncology,
      mk_subject ''Dr. Priya Sharma'' 2020 2017 (88 / 10) 33 20 24 9 4 1 (35 / 10) Immunology,
      mk_subject ''Dr. Noah Lee'' 2021 2016 (75 / 10) 27 13 16 10 1 0 0 Neuroscience,
      mk_subject ''Dr. Lila Patel'' 2019 2017 (79 / 10) 31 19 20 13 2 1 (121 / 10) Oncology]"

definition app_sample :: "variant \<Rightarrow> (int list \<Rightarrow> nat list) \<Rightarrow> app" where
  "app_sample v f =
     \<lparr>theme = v, DF = DF_sample, order_of = f,
      poisson_at = (\<lambda>lam i. int (i mod 3)),
      uniform_at = (\<lambda>lo hi i. lo)\<rparr>"

section \<open>Properties\<close>

subsection \<open>Facts about the string methods\<close>

lemma split_from_not_Nil: "split_from sep s \<noteq> []"
  by (induction sep s rule: split_from.induct) (auto split: list.splits)




lemma length_last_split_le: "length (last (split_from sep s)) \<le> length s"
proof (induction sep s rule: split_from.induct)
  case (1 sep)
  then show ?case by simp
next
  case (2 sep c cs)
  show ?case
  proof (cases "prefix sep (c # cs)")
    case True
    with 2 have "length (last (split_from sep (drop (length sep - 1) cs))) \<le> length cs"
      by (simp add: le_diff_conv) 
    with True show ?thesis by (simp add: split_from_not_Nil)
  next
    case False
    with 2 have "length (last (split_from sep cs)) \<le> length cs" by simp
    with False show ?thesis
      by (cases "split_from sep cs") (auto simp: split_from_not_Nil split: if_splits)
  qed
qed

lemma length_last_split_less:
  "sep \<noteq> [] \<Longrightarrow> occurs_in sep s \<Longrightarrow> length (last (split_from sep s)) < length s"
proof (induction s)
  case Nil
  then show ?case by simp
next
  case (Cons c cs)
  show ?case
  proof (cases "prefix sep (c # cs)")
    case True
    have "length (last (split_from sep (drop (length sep - 1) cs))) \<le> length (drop (length sep - 1) cs)"
      by (rule length_last_split_le)
    with True show ?thesis by (simp add: split_from_not_Nil)
  next
    case False
    with Cons have "length (last (split_from sep cs)) < length cs" by simp
    with False show ?thesis
      by (cases "split_from sep cs") (auto simp: split_from_not_Nil split: if_splits)
  qed
qed




lemma resolve_total: "\<exists>sel. resolve path = Inr sel"
  by (auto simp: resolve_def py_split_def py_last_def split_from_not_Nil split: option.splits list.splits)


lemma resolve_detail_sarah_chen:
  "resolve (Some ''/detail/Dr.%20Sarah%20Chen'') = Inr (Detail ''Dr. Sarah Chen'')"
  by (simp add: resolve_def py_split_def py_last_def py_replace_def)


subsection \<open>The router\<close>

text \<open>
  Claim C3. For a path that begins with \<^verbatim>\<open>/detail/\<close> the subject name should be the whole
  remainder of the path, with \<^verbatim>\<open>%20\<close> replaced by a space. The source takes the last piece
  of \<^verbatim>\<open>path.split("/detail/")\<close> instead, so when the remainder contains \<^verbatim>\<open>/detail/\<close> again
  everything up to its last occurrence is dropped: the path below selects the detail page
  of Dr. Sarah Chen, although its remainder \<^verbatim>\<open>x/detail/Dr. Sarah Chen\<close> names nobody.
  (\<open>resolve_detail_plain\<close> and \<open>resolve_detail_sarah_chen\<close> give the behaviour on the other
  paths.)
\<close>

theorem resolve_detail_drops_before_inner_prefix:
  "resolve (Some ''/detail/x/detail/Dr.%20Sarah%20Chen'') = Inr (Detail ''Dr. Sarah Chen'')"
  by (simp add: resolve_def py_split_def py_last_def py_replace_def)

text \<open>
  Claim C4. A path that does not begin with \<^verbatim>\<open>/detail/\<close> and is none of \<^verbatim>\<open>/ais\<close>, \<^verbatim>\<open>/eis\<close>,
  \<^verbatim>\<open>/his\<close>, \<^verbatim>\<open>/sis\<close>, \<^verbatim>\<open>/explorer\<close> resolves to the overview: \<^verbatim>\<open>/\<close>, the empty path and
  \<^verbatim>\<open>/nonsense\<close> among them, as does the missing path. The result is a page, never an
  error, and the generator is left as it was.
\<close>

theorem resolve_fallback_overview:
  assumes "\<not> prefix ''/detail/'' p"
      and "p \<notin> {''/ais'', ''/eis'', ''/his'', ''/sis'', ''/explorer''}"
  shows "resolve (Some p) = Inr Overview
         \<and> route a (Some p) g = Inr (page_overview a, g)
         \<and> resolve None = Inr Overview
         \<and> route a None g = Inr (page_overview a, g)"
  using assms by (simp add: resolve_def route_def)

theorem resolve_fallback_overview_witness:
  "resolve (Some ''/nonsense'') = Inr Overview
   \<and> route (app_sample DarkTheme order_stable) (Some ''/nonsense'') 0
       = Inr (page_overview (app_sample DarkTheme order_stable), 0)
   \<and> resolve (Some ''/'') = Inr Overview
   \<and> resolve (Some '''') = Inr Overview"
  using resolve_fallback_overview [of "''/nonsense''" "app_sample DarkTheme order_stable" 0]
    resolve_fallback_overview [of "''/''" "app_sample DarkTheme order_stable" 0]
    resolve_fallback_overview [of "''''" "app_sample DarkTheme order_stable" 0]
  by simp

subsection \<open>The click on a bar\<close>




subsection \<open>The detail page\<close>

lemma filter_Nil_iff_names:
  "filter (\<lambda>r. Scientist r = name) df = [] \<longleftrightarrow> name \<notin> Scientist ` set df"
  by (auto simp: filter_empty_conv)

lemma find_filter_Cons:
  "find P xs = Some r \<Longrightarrow> \<exists>rest. filter P xs = r # rest"
  by (induction xs) (auto split: if_splits)

lemma page_detail_absent:
  "filter (\<lambda>r. Scientist r = name) (DF a) = [] \<Longrightarrow> page_detail a name g = (NotFoundPage, g)"
  by (simp add: page_detail_def)

lemma page_detail_present:
  assumes "filter (\<lambda>r. Scientist r = name) (DF a) = r # rest"
  shows "\<exists>v. page_detail a name g
             = (DetailPage v, g + 2 * length [First_Publication_Year r .. Award_Year r + 3] + 5)
           \<and> dv_scientist v = name
           \<and> dv_breakdown v = [(''AIS'', AIS_score r), (''EIS'', EIS_score r),
                               (''HIS'', HIS_score r), (''SIS'', SIS_score r)]"
  using assms by (simp add: page_detail_def draw_def Let_def)

text \<open>
  Claim C6. \<^verbatim>\<open>page_detail\<close> compares names exactly. It returns the "not found" page when,
  and only when, no row of the frame has the given name; otherwise it returns a detail
  page for that name. It returns a page in either case: no branch of it raises, and the
  "not found" page is a value of its own, distinct from every detail page.
\<close>

theorem page_detail_not_found_iff:
  "(fst (page_detail a name g) = NotFoundPage \<longleftrightarrow> name \<notin> Scientist ` set (DF a))
   \<and> ((\<exists>v. fst (page_detail a name g) = DetailPage v \<and> dv_scientist v = name)
        \<longleftrightarrow> name \<in> Scientist ` set (DF a))"
proof (cases "filter (\<lambda>r. Scientist r = name) (DF a)")
  case Nil
  then have "name \<notin> Scientist ` set (DF a)" using filter_Nil_iff_names by blast
  with page_detail_absent [OF Nil, of g] show ?thesis by simp
next
  case (Cons r rest)
  then have "name \<in> Scientist ` set (DF a)"
    using filter_Nil_iff_names [of name "DF a"] by auto
  with page_detail_present [OF Cons, of g] show ?thesis by auto
qed

theorem page_detail_not_found_iff_witness:
  "fst (page_detail (app_sample DarkTheme order_stable) ''Does Not Exist'' 0) = NotFoundPage
   \<and> (\<exists>v. fst (page_detail (app_sample LightTheme order_stable) ''Dr. Sarah Chen'' 0) = DetailPage v
          \<and> dv_scientist v = ''Dr. Sarah Chen'')"
  using page_detail_not_found_iff [of "app_sample DarkTheme order_stable" "''Does Not Exist''" 0]
    page_detail_not_found_iff [of "app_sample LightTheme order_stable" "''Dr. Sarah Chen''" 0]
  by (simp add: app_sample_def DF_sample_def mk_subject_def)

text \<open>
  Claim C7. When a row has the given name, the breakdown of the detail page is the four
  pairs of metric label and sub-score of the first such row, in the order AIS, EIS, HIS,
  SIS.
\<close>

theorem page_detail_breakdown:
  assumes "find (\<lambda>r. Scientist r = name) (DF a) = Some r"
  shows "\<exists>v. fst (page_detail a name g) = DetailPage v
           \<and> dv_breakdown v = map (\<lambda>m. (col_name m, col m r)) [AIS, EIS, HIS, SIS]"
proof -
  from find_filter_Cons [OF assms] obtain rest
    where "filter (\<lambda>r. Scientist r = name) (DF a) = r # rest" ..
  from page_detail_present [OF this, of g] show ?thesis by auto
qed

theorem page_detail_breakdown_witness:
  "\<exists>v. fst (page_detail (app_sample DarkTheme order_stable) ''Dr. Emily Johnson'' 0) = DetailPage v
       \<and> dv_breakdown v = [(''AIS'', 35), (''EIS'', 22), (''HIS'', 19), (''SIS'', 10)]"
proof -
  have "find (\<lambda>r. Scientist r = ''Dr. Emily Johnson'') (DF (app_sample DarkTheme order_stable))
          = Some (DF_sample ! 1)"
    by (simp add: app_sample_def DF_sample_def mk_subject_def)
  from page_detail_breakdown [OF this, of 0] show ?thesis
    by (simp add: DF_sample_def mk_subject_def)
qed

subsection \<open>The router and the random generator\<close>

lemma dispatch_rng:
  "(\<exists>n. sel = Detail n \<and> n \<in> Scientist ` set (DF a)) \<Longrightarrow> g + 5 \<le> snd (dispatch a sel g)"
  "\<not> (\<exists>n. sel = Detail n \<and> n \<in> Scientist ` set (DF a)) \<Longrightarrow>
     dispatch a sel g = (fst (dispatch a sel 0), g)"
proof -
  assume "\<exists>n. sel = Detail n \<and> n \<in> Scientist ` set (DF a)"
  then obtain n where sel: "sel = Detail n" and "n \<in> Scientist ` set (DF a)" by blast
  then have "filter (\<lambda>r. Scientist r = n) (DF a) \<noteq> []"
    using filter_Nil_iff_names by blast
  then obtain r rest where "filter (\<lambda>r. Scientist r = n) (DF a) = r # rest"
    by (cases "filter (\<lambda>r. Scientist r = n) (DF a)") auto
  from page_detail_present [OF this, of g] sel show "g + 5 \<le> snd (dispatch a sel g)" by auto
next
  assume no: "\<not> (\<exists>n. sel = Detail n \<and> n \<in> Scientist ` set (DF a))"
  show "dispatch a sel g = (fst (dispatch a sel 0), g)"
  proof (cases sel)
    case (Detail n)
    with no have "filter (\<lambda>r. Scientist r = n) (DF a) = []"
      using filter_Nil_iff_names by blast
    with Detail show ?thesis by (simp add: page_detail_absent)
  qed simp_all
qed

text \<open>
  Claim C10, as stated, fails: resolving the detail path of a scientist of the data set
  draws from the process-wide generator. Dr. Sarah Chen's timeline spans 2016 to 2022, so
  two Poisson draws of seven variates and five uniform variates take the generator from
  position 0 to position 19.
\<close>

theorem route_detail_advances_generator:
  "map_sum id snd (route (app_sample DarkTheme order_stable) (Some ''/detail/Dr. Sarah Chen'') 0)
     = Inr 19"
  by (simp add: route_def resolve_def py_split_def py_last_def py_replace_def
      page_detail_def draw_def app_sample_def DF_sample_def mk_subject_def Let_def)

text \<open>
  Claim C10, amended. The selection is a function of the path alone: it is computed
  without the data set and without the generator, and it is never an error. The page is
  built from the selection. For every selection but the detail page of a name in the data
  set, the generator is left as it was and the page does not depend on it; for the detail
  page of a name in the data set, at least five variates are drawn.
\<close>

theorem route_selection_and_effect:
  "\<exists>sel. resolve path = Inr sel
        \<and> route a path g = Inr (dispatch a sel g)
        \<and> (if \<exists>n. sel = Detail n \<and> n \<in> Scientist ` set (DF a)
            then g + 5 \<le> snd (dispatch a sel g)
            else dispatch a sel g = (fst (dispatch a sel 0), g))"
proof -
  from resolve_total obtain sel where sel: "resolve path = Inr sel" ..
  then have "route a path g = Inr (dispatch a sel g)" by (simp add: route_def)
  with sel dispatch_rng [of sel a g] show ?thesis by (intro exI [of _ sel]) simp
qed

theorem route_selection_and_effect_witness:
  "resolve (Some ''/detail/Dr. Sarah Chen'') = Inr (Detail ''Dr. Sarah Chen'')
   \<and> (5::nat) \<le> snd (dispatch (app_sample DarkTheme order_stable) (Detail ''Dr. Sarah Chen'') 0)
   \<and> resolve (Some ''/explorer'') = Inr Explorer
   \<and> dispatch (app_sample DarkTheme order_stable) Explorer 7
       = (fst (dispatch (app_sample DarkTheme order_stable) Explorer 0), 7)"
  using route_selection_and_effect
      [of "Some ''/detail/Dr. Sarah Chen''" "app_sample DarkTheme order_stable" 0]
    route_selection_and_effect [of "Some ''/explorer''" "app_sample DarkTheme order_stable" 7]
  by (simp add: resolve_def py_split_def py_last_def py_replace_def
      app_sample_def DF_sample_def mk_subject_def)

subsection \<open>The bucket page\<close>

lemma sorted_rev_map_neg:
  fixes f :: "'a \<Rightarrow> int"
  shows "sorted (rev (map f xs)) \<longleftrightarrow> sorted (map (\<lambda>x. - f x) xs)"
  by (simp add: sorted_wrt_rev sorted_wrt_map flip: rev_map)

lemma order_stable_sorts: "sorts_descending order_stable"
  unfolding sorts_descending_def order_stable_def
  by (simp add: sorted_rev_map_neg)

lemma order_ties_reversed_sorts: "sorts_descending order_ties_reversed"
  unfolding sorts_descending_def order_ties_reversed_def
  by (simp add: rev_map)

lemma order_positions:
  assumes "sorts_descending f"
  shows "set (f ks) = {0 ..< length ks}" and "length (f ks) = length ks"
proof -
  from assms have m: "mset (f ks) = mset [0 ..< length ks]"
    by (simp add: sorts_descending_def)
  from arg_cong [OF m, of set_mset] show "set (f ks) = {0 ..< length ks}" by simp
  from arg_cong [OF m, of size] show "length (f ks) = length ks" by simp
qed

lemma topByMetric_keys:
  assumes "sorts_descending (order_of a)"
  shows "map (col m) (topByMetric a m)
           = map (\<lambda>i. map (col m) (DF a) ! i) (order_of a (map (col m) (DF a)))"
  using order_positions(1) [OF assms, of "map (col m) (DF a)"]
  by (auto simp: topByMetric_def)

lemma topByMetric_mset:
  assumes "sorts_descending (order_of a)"
  shows "mset (topByMetric a m) = mset (DF a)"
proof -
  let ?ks = "map (col m) (DF a)"
  from assms have "mset (order_of a ?ks) = mset [0 ..< length (DF a)]"
    by (simp add: sorts_descending_def)
  then have "mset (map (\<lambda>i. DF a ! i) (order_of a ?ks))
               = mset (map (\<lambda>i. DF a ! i) [0 ..< length (DF a)])"
    by (metis mset_map)
  then show ?thesis by (simp add: topByMetric_def map_nth)
qed

lemma DF_sample_AIS:
  "map (col AIS) DF_sample = [35, 35, 41, 28, 30, 24, 38, 33, 27, 31]"
  by (simp add: DF_sample_def mk_subject_def)

lemma DF_sample_names: "map Scientist DF_sample = SCIENTISTS"
  by (simp add: DF_sample_def mk_subject_def SCIENTISTS_def)

lemma upt_10: "[0 ..< 10] = [0, 1, 2, 3, 4, 5, 6, 7, 8, 9]"
  by (simp add: upt_rec)

lemma order_stable_sample:
  "order_stable [35, 35, 41, 28, 30, 24, 38, 33, 27, 31] = [2, 6, 0, 1, 7, 9, 4, 3, 8, 5]"
  by (simp add: order_stable_def upt_10)

lemma order_ties_reversed_sample:
  "order_ties_reversed [35, 35, 41, 28, 30, 24, 38, 33, 27, 31] = [2, 6, 1, 0, 7, 9, 4, 3, 8, 5]"
  by (simp add: order_ties_reversed_def upt_10)

lemma bucketTable_of_sorted:
  assumes "sorts_descending (order_of a)"
  shows "mset (bucketTable a m) = mset (bucketTable (a\<lparr>DF := topByMetric a m\<rparr>) m)"
proof -
  have "mset (map f (DF a)) = mset (map f (topByMetric a m))" for f :: "subject \<Rightarrow> bucket_row"
    using topByMetric_mset [OF assms, of m] by (metis mset_map)
  then show ?thesis by (simp add: bucketTable_def)
qed

text \<open>
  With a stable routine, such as \<open>order_stable\<close>, rows of equal value keep their insertion
  order in the sorted frame.
\<close>

lemma topByMetric_stable_ties:
  assumes "order_of a = order_stable"
  shows "filter (\<lambda>r. col m r = v) (topByMetric a m) = filter (\<lambda>r. col m r = v) (DF a)"
proof -
  let ?n = "length (DF a)"
  let ?ks = "map (col m) (DF a)"
  let ?key = "\<lambda>i. - (?ks ! i)"
  have "filter (\<lambda>r. col m r = v) (topByMetric a m)
          = map (\<lambda>i. DF a ! i) (filter (\<lambda>i. col m (DF a ! i) = v) (sort_key ?key [0 ..< ?n]))"
    by (simp add: topByMetric_def assms order_stable_def filter_map comp_def)
  also have "filter (\<lambda>i. col m (DF a ! i) = v) (sort_key ?key [0 ..< ?n])
               = filter (\<lambda>i. ?key i = - v) (sort_key ?key [0 ..< ?n])"
    by (rule filter_cong) auto
  also have "\<dots> = filter (\<lambda>i. ?key i = - v) [0 ..< ?n]"
    by (rule sort_key_stable)
  also have "\<dots> = filter (\<lambda>i. col m (DF a ! i) = v) [0 ..< ?n]"
    by (rule filter_cong) auto
  also have "map (\<lambda>i. DF a ! i) \<dots> = filter (\<lambda>r. col m r = v) (map (\<lambda>i. DF a ! i) [0 ..< ?n])"
    by (simp add: filter_map comp_def)
  finally show ?thesis by (simp add: map_nth)
qed

text \<open>
  Claim C1, as stated, fails in its last part. The source asks pandas for its default
  sort, which promises a descending order and no more; \<open>order_ties_reversed\<close> keeps that
  promise, and with it Dr. Emily Johnson comes before Dr. Sarah Chen in the AIS chart of
  the sample, although both have the value 35 and Dr. Sarah Chen was inserted first.
\<close>

theorem topByMetric_ties_not_in_insertion_order:
  "sorts_descending order_ties_reversed
   \<and> map (\<lambda>r. (Scientist r, col AIS r)) (take 2 DF_sample)
       = [(''Dr. Sarah Chen'', 35), (''Dr. Emily Johnson'', 35)]
   \<and> map (\<lambda>r. (Scientist r, col AIS r))
         (topByMetric (app_sample DarkTheme order_ties_reversed) AIS)
       = [(''Dr. James Washington'', 41), (''Dr. Miguel Alvarez'', 38),
          (''Dr. Emily Johnson'', 35), (''Dr. Sarah Chen'', 35),
          (''Dr. Priya Sharma'', 33), (''Dr. Lila Patel'', 31), (''Dr. Elena Park'', 30),
          (''Dr. Diego Rossi'', 28), (''Dr. Noah Lee'', 27), (''Dr. Farah Khan'', 24)]"
proof -
  let ?a = "app_sample DarkTheme order_ties_reversed"
  have keys: "order_of ?a (map (col AIS) (DF ?a)) = [2, 6, 1, 0, 7, 9, 4, 3, 8, 5]"
    by (simp add: app_sample_def DF_sample_AIS order_ties_reversed_sample)
  have "map (\<lambda>r. (Scientist r, col AIS r)) (topByMetric ?a AIS)
          = [(''Dr. James Washington'', 41), (''Dr. Miguel Alvarez'', 38),
             (''Dr. Emily Johnson'', 35), (''Dr. Sarah Chen'', 35),
             (''Dr. Priya Sharma'', 33), (''Dr. Lila Patel'', 31), (''Dr. Elena Park'', 30),
             (''Dr. Diego Rossi'', 28), (''Dr. Noah Lee'', 27), (''Dr. Farah Khan'', 24)]"
    unfolding topByMetric_def keys by (simp add: app_sample_def DF_sample_def mk_subject_def)
  moreover have "map (\<lambda>r. (Scientist r, col AIS r)) (take 2 DF_sample)
                   = [(''Dr. Sarah Chen'', 35), (''Dr. Emily Johnson'', 35)]"
    by (simp add: DF_sample_def mk_subject_def)
  ultimately show ?thesis using order_ties_reversed_sorts by simp
qed

text \<open>
  Claim C1, amended. For each of the four metrics, and whatever sorting routine pandas
  uses within its contract, the frame behind the bar chart is non-increasing in the
  metric, has as many rows as the data set, and holds the same rows. The order among rows
  of equal value is left to the sorting routine.
\<close>

theorem topByMetric_sorted_descending:
  assumes "sorts_descending (order_of a)"
  shows "sorted (rev (map (col m) (topByMetric a m)))
         \<and> length (topByMetric a m) = length (DF a)
         \<and> mset (topByMetric a m) = mset (DF a)"
proof -
  from assms have "sorted (rev (map (col m) (topByMetric a m)))"
    unfolding topByMetric_keys [OF assms] by (simp add: sorts_descending_def)
  moreover have "length (topByMetric a m) = length (DF a)"
    using order_positions(2) [OF assms, of "map (col m) (DF a)"] by (simp add: topByMetric_def)
  ultimately show ?thesis using topByMetric_mset [OF assms] by simp
qed

theorem topByMetric_sorted_descending_witness:
  "sorts_descending (order_of (app_sample DarkTheme order_stable))
   \<and> sorted (rev (map (col AIS) (topByMetric (app_sample DarkTheme order_stable) AIS)))
   \<and> length (topByMetric (app_sample DarkTheme order_stable) AIS) = 10
   \<and> mset (topByMetric (app_sample DarkTheme order_stable) AIS) = mset DF_sample"
proof -
  have s: "sorts_descending (order_of (app_sample DarkTheme order_stable))"
    by (simp add: app_sample_def order_stable_sorts)
  have "length (DF (app_sample DarkTheme order_stable)) = 10"
    by (simp add: app_sample_def DF_sample_def)
  moreover have "DF (app_sample DarkTheme order_stable) = DF_sample"
    by (simp add: app_sample_def)
  ultimately show ?thesis
    using s topByMetric_sorted_descending [OF s, of AIS] by simp
qed

text \<open>
  Claim C2, as stated, fails: the table is built from the frame as it is, not from the
  sorted frame. In the sample its AIS column reads 35, 35, 41, ... in insertion order,
  which is not descending, while the chart reads 41, 38, 35, ...
\<close>

theorem bucketTable_not_in_chart_order:
  "map row_metric (bucketTable (app_sample DarkTheme order_stable) AIS)
     = [35, 35, 41, 28, 30, 24, 38, 33, 27, 31]
   \<and> map (col AIS) (topByMetric (app_sample DarkTheme order_stable) AIS)
     = [41, 38, 35, 35, 33, 31, 30, 28, 27, 24]
   \<and> \<not> sorted (rev (map row_metric (bucketTable (app_sample DarkTheme order_stable) AIS)))"
proof -
  let ?a = "app_sample DarkTheme order_stable"
  have keys: "order_of ?a (map (col AIS) (DF ?a)) = [2, 6, 0, 1, 7, 9, 4, 3, 8, 5]"
    by (simp add: app_sample_def DF_sample_AIS order_stable_sample)
  have t: "map row_metric (bucketTable ?a AIS) = [35, 35, 41, 28, 30, 24, 38, 33, 27, 31]"
    by (simp add: bucketTable_def app_sample_def DF_sample_def mk_subject_def)
  have "map (col AIS) (topByMetric ?a AIS) = [41, 38, 35, 35, 33, 31, 30, 28, 27, 24]"
    unfolding topByMetric_def keys by (simp add: app_sample_def DF_sample_def mk_subject_def)
  moreover have "\<not> sorted (rev (map row_metric (bucketTable ?a AIS)))"
    unfolding t by simp
  ultimately show ?thesis using t by simp
qed

text \<open>
  Claim C2, amended. For each of the four metrics the table has one row per row of the
  data set, in insertion order, with the columns name, field, award year and metric
  value; it holds the rows that the table of the sorted frame would hold, in another
  order.
\<close>

theorem bucketTable_insertion_order:
  assumes "sorts_descending (order_of a)"
  shows "map row_scientist (bucketTable a m) = map Scientist (DF a)
         \<and> map row_field (bucketTable a m) = map Field (DF a)
         \<and> map row_award_year (bucketTable a m) = map Award_Year (DF a)
         \<and> map row_metric (bucketTable a m) = map (col m) (DF a)
         \<and> mset (bucketTable a m) = mset (bucketTable (a\<lparr>DF := topByMetric a m\<rparr>) m)"
  using bucketTable_of_sorted [OF assms, of m] by (simp add: bucketTable_def comp_def)

theorem bucketTable_insertion_order_witness:
  "sorts_descending (order_of (app_sample LightTheme order_stable))
   \<and> map row_scientist (bucketTable (app_sample LightTheme order_stable) EIS) = SCIENTISTS
   \<and> map row_metric (bucketTable (app_sample LightTheme order_stable) EIS)
       = [18, 22, 12, 17, 25, 15, 9, 20, 13, 19]"
proof -
  have s: "sorts_descending (order_of (app_sample LightTheme order_stable))"
    by (simp add: app_sample_def order_stable_sorts)
  from s bucketTable_insertion_order [OF s, of EIS] show ?thesis
    by (simp add: app_sample_def DF_sample_def mk_subject_def SCIENTISTS_def)
qed

subsection \<open>The rotating highlight\<close>

lemma rotate_in_range:
  assumes "hl \<noteq> []"
  shows "rotate_highlights_in hl n idx
           = Inr (hl ! nat ((idx + 1) mod int (length hl)), (idx + 1) mod int (length hl))"
  using assms by (simp add: rotate_highlights_in_def Let_def)

lemma tick_step:
  assumes "hl \<noteq> []"
  shows "tick hl s
           = Inr \<lparr>headline = Some (hl ! nat ((hi_index s + 1) mod int (length hl))),
                  hi_index = (hi_index s + 1) mod int (length hl),
                  n_intervals = n_intervals s + 1\<rparr>"
  by (simp add: tick_def run_callback_def rotate_in_range [OF assms])

lemma page_load_state:
  assumes "hl \<noteq> []"
  shows "page_load hl
           = Inr \<lparr>headline = Some (hl ! nat (1 mod int (length hl))),
                  hi_index = 1 mod int (length hl), n_intervals = 0\<rparr>"
  by (simp add: page_load_def run_callback_def hi_initial_def rotate_in_range [OF assms])

lemma ticks_from:
  assumes "hl \<noteq> []"
  shows "ticks hl k s =
           Inr (if k = 0 then s
                else \<lparr>headline = Some (hl ! nat ((hi_index s + int k) mod int (length hl))),
                      hi_index = (hi_index s + int k) mod int (length hl),
                      n_intervals = n_intervals s + k\<rparr>)"
proof (induction k arbitrary: s)
  case 0
  show ?case by simp
next
  case (Suc k)
  let ?n = "int (length hl)"
  let ?s' = "\<lparr>headline = Some (hl ! nat ((hi_index s + 1) mod ?n)),
              hi_index = (hi_index s + 1) mod ?n, n_intervals = n_intervals s + 1\<rparr>"
  have step: "tick hl s = Inr ?s'"
    by (rule tick_step [OF assms])
  have idx: "((hi_index s + 1) mod ?n + int k) mod ?n = (hi_index s + int (Suc k)) mod ?n"
  proof -
    have "((hi_index s + 1) mod ?n + int k) mod ?n = (hi_index s + 1 + int k) mod ?n"
      by (rule mod_add_left_eq)
    then show ?thesis by (simp add: add.assoc)
  qed
  show ?case
  proof (cases "k = 0")
    case True
    with step show ?thesis by simp
  next
    case False
    with step Suc.IH [of ?s'] idx show ?thesis by simp
  qed
qed

lemma after_ticks_state:
  assumes "hl \<noteq> []"
  shows "after_ticks hl k
           = Inr \<lparr>headline = Some (hl ! (Suc k mod length hl)),
                  hi_index = int (Suc k mod length hl), n_intervals = k\<rparr>"
proof -
  let ?n = "int (length hl)"
  have one: "(1::int) mod ?n = int (Suc 0 mod length hl)"
    using zmod_int [of "Suc 0" "length hl"] by simp
  have idx: "(1 mod ?n + int k) mod ?n = int (Suc k mod length hl)"
  proof -
    have "(1 mod ?n + int k) mod ?n = (1 + int k) mod ?n" by (rule mod_add_left_eq)
    also have "\<dots> = int (Suc k) mod ?n" by simp
    also have "\<dots> = int (Suc k mod length hl)" by (simp only: zmod_int)
    finally show ?thesis .
  qed
  show ?thesis
  proof (cases "k = 0")
    case True
    then show ?thesis
      by (simp add: after_ticks_def page_load_state [OF assms] one)
  next
    case False
    then show ?thesis
      by (simp add: after_ticks_def page_load_state [OF assms] ticks_from [OF assms] idx)
  qed
qed

text \<open>
  Claim C9, as stated, fails in its index: the callback has already run once when the
  page is loaded, so over the five highlights the stored index is 1 before the timer has
  ticked, and 0 after four ticks, where the claim gives 0 and 4.
\<close>

theorem rotation_index_one_ahead:
  "hi_index hi_initial = 0
   \<and> length IMPACT_HIGHLIGHTS = 5
   \<and> map_sum id hi_index (after_ticks IMPACT_HIGHLIGHTS 0) = Inr 1
   \<and> map_sum id hi_index (after_ticks IMPACT_HIGHLIGHTS 4) = Inr 0"
  by (simp add: after_ticks_def page_load_def tick_def run_callback_def
      rotate_highlights_in_def hi_initial_def IMPACT_HIGHLIGHTS_def eval_nat_numeral)

text \<open>
  Claim C9, amended. The stored index is created as 0 and the callback runs once when the
  page is loaded. Over a non-empty list of \<open>n\<close> highlights, after \<open>k\<close> ticks of the timer the
  timer's count is \<open>k\<close>, the index is \<open>(k + 1) mod n\<close> and the headline is the highlight at
  that index. After \<open>n\<close> ticks the headline and the index are those after no tick, and so
  \<open>n\<close> ticks after any number of ticks. Every number of ticks succeeds: there is no
  terminal state.
\<close>

theorem rotation_after_ticks:
  assumes "hl \<noteq> []"
  shows "after_ticks hl k
           = Inr \<lparr>headline = Some (hl ! (Suc k mod length hl)),
                  hi_index = int (Suc k mod length hl), n_intervals = k\<rparr>
         \<and> map_sum id headline (after_ticks hl (length hl))
           = map_sum id headline (after_ticks hl 0)
         \<and> map_sum id hi_index (after_ticks hl (length hl))
           = map_sum id hi_index (after_ticks hl 0)
         \<and> map_sum id headline (after_ticks hl (k + length hl))
           = map_sum id headline (after_ticks hl k)"
proof -
  have p: "Suc (k + length hl) mod length hl = Suc k mod length hl" for k
    using mod_add_self2 [of "Suc k" "length hl"] by simp
  have q: "Suc (length hl) mod length hl = Suc 0 mod length hl"
    using p [of 0] by simp
  show ?thesis
    unfolding after_ticks_state [OF assms] by (simp add: p q)
qed

theorem rotation_after_ticks_witness:
  "IMPACT_HIGHLIGHTS \<noteq> []
   \<and> after_ticks IMPACT_HIGHLIGHTS 7
       = Inr \<lparr>headline = Some ''78% above national oRCR'', hi_index = 3, n_intervals = 7\<rparr>
   \<and> map_sum id headline (after_ticks IMPACT_HIGHLIGHTS 5)
       = Inr (Some ''$1.2B capital raised'')
   \<and> map_sum id headline (after_ticks IMPACT_HIGHLIGHTS 0)
       = Inr (Some ''$1.2B capital raised'')"
proof -
  have ne: "IMPACT_HIGHLIGHTS \<noteq> []" by (simp add: IMPACT_HIGHLIGHTS_def)
  have l: "length IMPACT_HIGHLIGHTS = 5" by (simp add: IMPACT_HIGHLIGHTS_def)
  have n3: "IMPACT_HIGHLIGHTS ! 3 = ''78% above national oRCR''"
    and n1: "IMPACT_HIGHLIGHTS ! Suc 0 = ''$1.2B capital raised''"
    by (simp_all add: IMPACT_HIGHLIGHTS_def)
  have "after_ticks IMPACT_HIGHLIGHTS 7
          = Inr \<lparr>headline = Some ''78% above national oRCR'', hi_index = 3, n_intervals = 7\<rparr>"
    using rotation_after_ticks [OF ne, of 7, THEN conjunct1] by (simp add: l n3)
  moreover have "map_sum id headline (after_ticks IMPACT_HIGHLIGHTS 5)
                   = Inr (Some ''$1.2B capital raised'')"
    using rotation_after_ticks [OF ne, of 5, THEN conjunct1] by (simp add: l n1)
  moreover have "map_sum id headline (after_ticks IMPACT_HIGHLIGHTS 0)
                   = Inr (Some ''$1.2B capital raised'')"
    using rotation_after_ticks [OF ne, of 0, THEN conjunct1] by (simp add: l n1)
  ultimately show ?thesis using ne by simp
qed

end
